theory Spec2Isabelle
  imports Main "HOL-Library.Char_ord" "HOL-Library.List_Lexorder"
begin

section \<open>Python strings\<close>

text \<open>
  Python text is modelled as \<^typ>\<open>string\<close>: a list of characters with code points below
  256. The functions below are the string methods that \<^verbatim>\<open>call_tracker_app_real.py\<close> calls,
  restricted to that range.
\<close>

definition NL :: char where
  "NL = CHR 0x0A"

definition CR :: char where
  "CR = CHR 0x0D"

text \<open>\<^verbatim>\<open>str.isspace\<close> on one character: the white space that \<^verbatim>\<open>strip()\<close> removes.\<close>

definition is_space :: "char \<Rightarrow> bool" where
  "is_space c = (c \<in> set [CHR 0x09, CHR 0x0A, CHR 0x0B, CHR 0x0C, CHR 0x0D,
                           CHR 0x1C, CHR 0x1D, CHR 0x1E, CHR 0x1F, CHR 0x20,
                           CHR 0x85, CHR 0xA0])"

text \<open>\<^verbatim>\<open>s.strip()\<close>: leading and trailing white space removed.\<close>

definition strip :: "string \<Rightarrow> string" where
  "strip s = rev (dropWhile is_space (rev (dropWhile is_space s)))"

text \<open>
  \<^verbatim>\<open>s.lower()\<close>: the upper-case letters mapped to lower case, which below code point 256
  are A to Z and the accented capitals 0xC0 to 0xDE without the multiplication sign 0xD7.
\<close>

definition upper_letters :: string where
  "upper_letters = ''ABCDEFGHIJKLMNOPQRSTUVWXYZ'' @
     [CHR 0xC0, CHR 0xC1, CHR 0xC2, CHR 0xC3, CHR 0xC4, CHR 0xC5, CHR 0xC6, CHR 0xC7,
      CHR 0xC8, CHR 0xC9, CHR 0xCA, CHR 0xCB, CHR 0xCC, CHR 0xCD, CHR 0xCE, CHR 0xCF,
      CHR 0xD0, CHR 0xD1, CHR 0xD2, CHR 0xD3, CHR 0xD4, CHR 0xD5, CHR 0xD6,
      CHR 0xD8, CHR 0xD9, CHR 0xDA, CHR 0xDB, CHR 0xDC, CHR 0xDD, CHR 0xDE]"

definition lower_letters :: string where
  "lower_letters = ''abcdefghijklmnopqrstuvwxyz'' @
     [CHR 0xE0, CHR 0xE1, CHR 0xE2, CHR 0xE3, CHR 0xE4, CHR 0xE5, CHR 0xE6, CHR 0xE7,
      CHR 0xE8, CHR 0xE9, CHR 0xEA, CHR 0xEB, CHR 0xEC, CHR 0xED, CHR 0xEE, CHR 0xEF,
      CHR 0xF0, CHR 0xF1, CHR 0xF2, CHR 0xF3, CHR 0xF4, CHR 0xF5, CHR 0xF6,
      CHR 0xF8, CHR 0xF9, CHR 0xFA, CHR 0xFB, CHR 0xFC, CHR 0xFD, CHR 0xFE]"

definition lower_char :: "char \<Rightarrow> char" where
  "lower_char c =
     (case map_of (zip upper_letters lower_letters) c of
        None \<Rightarrow> c
      | Some d \<Rightarrow> d)"

definition lower :: "string \<Rightarrow> string" where
  "lower s = map lower_char s"

text \<open>\<^verbatim>\<open>s.startswith(p)\<close>.\<close>

definition startswith :: "string \<Rightarrow> string \<Rightarrow> bool" where
  "startswith s p = (take (length p) s = p)"

text \<open>\<^verbatim>\<open>sub in s\<close> on strings: \<open>sub\<close> occurs in \<open>s\<close> as a contiguous substring.\<close>

fun contains :: "string \<Rightarrow> string \<Rightarrow> bool" where
  "contains sub [] = (sub = [])"
| "contains sub (c # cs) = (startswith (c # cs) sub \<or> contains sub cs)"

text \<open>
  \<^verbatim>\<open>s.replace(old, new)\<close>: every occurrence of \<open>old\<close>, found from the left and not
  overlapping, is replaced. With an empty \<open>old\<close>, Python puts \<open>new\<close> before every character
  and at the end.
\<close>

function replace_from :: "string \<Rightarrow> string \<Rightarrow> string \<Rightarrow> string" where
  "replace_from old new s =
     (if s = [] then []
      else if old \<noteq> [] \<and> startswith s old
        then new @ replace_from old new (drop (length old) s)
      else hd s # replace_from old new (tl s))"
  by pat_completeness auto
termination
  by (relation "measure (\<lambda>(old, new, s). length s)") auto

declare replace_from.simps [simp del]

definition replace :: "string \<Rightarrow> string \<Rightarrow> string \<Rightarrow> string" where
  "replace s old new =
     (if old = [] then new @ concat (map (\<lambda>c. c # new) s) else replace_from old new s)"

section \<open>Storage paths\<close>

definition DATA_DIR :: string where
  "DATA_DIR = ''link_tracking_data''"

text \<open>
  \<^verbatim>\<open>os.path.join(DATA_DIR, name)\<close> for a \<open>name\<close> that does not start with a slash.
\<close>

definition path_join :: "string \<Rightarrow> string \<Rightarrow> string" where
  "path_join d name = d @ ''/'' @ name"

definition POLL_INTERVAL :: nat where
  "POLL_INTERVAL = 60"

text \<open>
  Lines 56 and 57 of \<^verbatim>\<open>append_log\<close>, repeated at lines 146 and 147 of the dashboard:
  \<^verbatim>\<open>safe = url.replace("://", "_").replace("/", "_")\<close> and
  \<^verbatim>\<open>path = os.path.join(DATA_DIR, f"{safe}.csv")\<close>.
\<close>

definition safe :: "string \<Rightarrow> string" where
  "safe url = replace (replace url ''://'' ''_'') ''/'' ''_''"

definition csv_path :: "string \<Rightarrow> string" where
  "csv_path url = path_join DATA_DIR (safe url @ ''.csv'')"

section \<open>Integers as text\<close>

definition is_digit :: "char \<Rightarrow> bool" where
  "is_digit c = (c \<in> set ''0123456789'')"

definition digit_value :: "char \<Rightarrow> nat" where
  "digit_value c = of_char c - 48"

text \<open>
  The digits after the first one, as \<^verbatim>\<open>int(text)\<close> reads them: a single underscore is
  allowed between two digits.
\<close>

fun parse_digits :: "string \<Rightarrow> nat \<Rightarrow> nat option" where
  "parse_digits [] acc = Some acc"
| "parse_digits [c] acc =
     (if is_digit c then Some (10 * acc + digit_value c) else None)"
| "parse_digits (c # d # cs) acc =
     (if is_digit c then parse_digits (d # cs) (10 * acc + digit_value c)
      else if c = CHR ''_'' \<and> is_digit d then parse_digits cs (10 * acc + digit_value d)
      else None)"

definition parse_unsigned :: "string \<Rightarrow> nat option" where
  "parse_unsigned s =
     (case s of
        [] \<Rightarrow> None
      | c # cs \<Rightarrow> if is_digit c then parse_digits cs (digit_value c) else None)"

text \<open>
  The white space that \<^verbatim>\<open>int(text)\<close> drops at both ends: tab, line feed, vertical tab, form
  feed, carriage return and space, and of the characters outside ASCII the next-line
  character and the no-break space. The separators 0x1C to 0x1F are not among them.
\<close>

definition int_space :: "char \<Rightarrow> bool" where
  "int_space c = (c \<in> set [CHR 0x09, CHR 0x0A, CHR 0x0B, CHR 0x0C, CHR 0x0D, CHR 0x20,
                            CHR 0x85, CHR 0xA0])"

definition int_strip :: "string \<Rightarrow> string" where
  "int_strip s = rev (dropWhile int_space (rev (dropWhile int_space s)))"

text \<open>The default of \<^verbatim>\<open>sys.get_int_max_str_digits()\<close>.\<close>

definition int_max_str_digits :: nat where
  "int_max_str_digits = 4300"

text \<open>
  \<^verbatim>\<open>int(text)\<close>: surrounding white space is dropped, then an optional sign and decimal
  digits are read; a text with more digits than the limit is refused. \<open>None\<close> is Python's
  \<^verbatim>\<open>ValueError\<close>.
\<close>

definition py_int :: "string \<Rightarrow> int option" where
  "py_int s =
     (if int_max_str_digits < length (filter is_digit s) then None
      else case int_strip s of
        [] \<Rightarrow> None
      | c # cs \<Rightarrow>
          if c = CHR ''-'' then map_option (\<lambda>n. - int n) (parse_unsigned cs)
          else if c = CHR ''+'' then map_option int (parse_unsigned cs)
          else map_option int (parse_unsigned (c # cs)))"

definition digit_char :: "nat \<Rightarrow> char" where
  "digit_char n = ''0123456789'' ! n"

fun str_nat :: "nat \<Rightarrow> string" where
  "str_nat n = (if n < 10 then [digit_char n] else str_nat (n div 10) @ [digit_char (n mod 10)])"

declare str_nat.simps [simp del]

text \<open>
  \<^verbatim>\<open>str(count)\<close>, which the f-string of \<^verbatim>\<open>write_heartbeat\<close> applies to the count, for a
  count of at most 4300 digits.
\<close>

definition str_int :: "int \<Rightarrow> string" where
  "str_int i = (if i < 0 then CHR ''-'' # str_nat (nat (- i)) else str_nat (nat i))"

section \<open>Files and the state of the world\<close>

text \<open>
  The exceptions that leave a function of the program. Exceptions caught where they are
  raised appear as the value the handler returns.
\<close>

datatype error =
  WebDriverException | UnicodeDecodeError | ParserError | TypeError | ValueError | OSError

text \<open>
  A text file that exists holds text, or bytes that the text layer cannot decode: reading
  the latter raises \<^verbatim>\<open>UnicodeDecodeError\<close>. A file that does not exist is \<open>None\<close> in the
  world below.
\<close>

datatype text_file = Text string | Undecodable

text \<open>
  A reading of the local clock, as \<^verbatim>\<open>datetime.now()\<close> returns it: a date and a time of day
  without time zone.
\<close>

record datetime =
  year :: nat
  month :: nat
  day :: nat
  hour :: nat
  minute :: nat
  second :: nat
  microsecond :: nat

text \<open>\<^verbatim>\<open>text.zfill(width)\<close> on a text without sign.\<close>

definition zfill :: "nat \<Rightarrow> string \<Rightarrow> string" where
  "zfill width s = replicate (width - length s) (CHR ''0'') @ s"

text \<open>
  \<^verbatim>\<open>strftime("%Y-%m-%d %H:%M:%S")\<close>, line 109: the year as the C library prints it, without
  padding, and the other fields with two digits.
\<close>

definition strftime :: "datetime \<Rightarrow> string" where
  "strftime d =
     str_nat (year d) @ ''-'' @ zfill 2 (str_nat (month d)) @ ''-'' @ zfill 2 (str_nat (day d))
     @ '' '' @ zfill 2 (str_nat (hour d)) @ '':'' @ zfill 2 (str_nat (minute d))
     @ '':'' @ zfill 2 (str_nat (second d))"

text \<open>One data row of an event file, with the columns that \<^verbatim>\<open>append_log\<close> writes.\<close>

record row =
  datetime :: datetime
  Available_For_Call :: int
  On_Call :: int

text \<open>
  A pandas \<^verbatim>\<open>DataFrame\<close>: its column names and its rows in index order. Writing a frame
  with \<^verbatim>\<open>to_csv(path, index=False)\<close> and reading it with \<^verbatim>\<open>read_csv\<close> gives the frame back;
  an event file therefore holds a frame (header row and data rows), or content that pandas
  cannot parse as a table. Of a frame only the cells of the three columns that \<^verbatim>\<open>append_log\<close>
  writes are kept.
\<close>

record dataframe =
  columns :: "string list"
  rows :: "row list"

datatype csv_file = Csv dataframe | Unparsable

text \<open>What the program does to the outside, in the order in which it happens.\<close>

datatype effect = Probe string | WriteHeartbeat int string | Sleep nat

text \<open>
  The state of the world: the instant, in ticks of a clock that is never set and only
  runs forward, the files of the data directory, and the effects so far.
\<close>

record world =
  now :: nat
  heartbeat_file :: "text_file option"
  links_file :: "text_file option"
  csv_files :: "string \<Rightarrow> csv_file option"
  effects :: "effect list"

text \<open>
  A file opened with \<^verbatim>\<open>open(path)\<close> is read in text mode with universal newlines: a
  carriage return, alone or followed by a line feed, is read as one line feed. The flag
  says that the character before was a carriage return.
\<close>

fun translate_newlines :: "bool \<Rightarrow> string \<Rightarrow> string" where
  "translate_newlines after_cr [] = []"
| "translate_newlines after_cr (c # cs) =
     (if c = CR then NL # translate_newlines True cs
      else if c = NL \<and> after_cr then translate_newlines False cs
      else c # translate_newlines False cs)"

definition universal_newlines :: "string \<Rightarrow> string" where
  "universal_newlines content = translate_newlines False content"

text \<open>
  The lines of a text with their line feeds, the last one without when the text does not
  end in one.
\<close>

fun split_lines :: "string \<Rightarrow> string list" where
  "split_lines [] = []"
| "split_lines (c # cs) =
     (if c = NL then [c] # split_lines cs
      else case split_lines cs of [] \<Rightarrow> [[c]] | l # ls \<Rightarrow> (c # l) # ls)"

text \<open>Iterating over an open text file, and \<^verbatim>\<open>f.readlines()\<close>, on the content of the file.\<close>

definition readlines :: "string \<Rightarrow> string list" where
  "readlines content = split_lines (universal_newlines content)"

section \<open>Heartbeat\<close>

text \<open>
  \<^verbatim>\<open>write_heartbeat(count, last_poll)\<close>, lines 29 to 31: the file is opened with mode "w" and
  gets the two lines.
\<close>

definition write_heartbeat :: "int \<Rightarrow> string \<Rightarrow> world \<Rightarrow> world" where
  "write_heartbeat count last_poll w =
     w\<lparr>heartbeat_file := Some (Text (str_int count @ [NL] @ last_poll @ [NL])),
       effects := effects w @ [WriteHeartbeat count last_poll]\<rparr>"

text \<open>
  \<^verbatim>\<open>read_heartbeat()\<close>, lines 33 to 43. The file is opened and read outside the
  \<^verbatim>\<open>try\<close>; \<^verbatim>\<open>int(lines[0])\<close> and \<^verbatim>\<open>lines[1].strip()\<close> are inside it, and every exception
  there gives \<^verbatim>\<open>(0, None)\<close>.
\<close>

definition read_heartbeat :: "world \<Rightarrow> error + (int \<times> string option)" where
  "read_heartbeat w =
     (case heartbeat_file w of
        None \<Rightarrow> Inr (0, None)
      | Some Undecodable \<Rightarrow> Inl UnicodeDecodeError
      | Some (Text content) \<Rightarrow>
          (case readlines content of
             [] \<Rightarrow> Inr (0, None)
           | l0 # ls \<Rightarrow>
               (case py_int l0 of
                  None \<Rightarrow> Inr (0, None)
                | Some count \<Rightarrow>
                    (case ls of
                       [] \<Rightarrow> Inr (0, None)
                     | l1 # _ \<Rightarrow> Inr (count, Some (strip l1))))))"

section \<open>Link registry\<close>

definition default_links :: "string list" where
  "default_links = [''https://www.astroyogi.com/astrologer/expert/saalivaagana.aspx'']"

text \<open>
  \<^verbatim>\<open>load_links()\<close>, lines 45 to 52: \<^verbatim>\<open>[l.strip() for l in f if l.strip()]\<close> when the file
  exists, the default list otherwise. Nothing is caught.
\<close>

definition load_links :: "world \<Rightarrow> error + string list" where
  "load_links w =
     (case links_file w of
        None \<Rightarrow> Inr default_links
      | Some Undecodable \<Rightarrow> Inl UnicodeDecodeError
      | Some (Text content) \<Rightarrow> Inr [strip l. l \<leftarrow> readlines content, strip l \<noteq> []])"

text \<open>
  Writing \<open>s\<close> to a file opened with mode "a", where a line feed is written as it is (the
  line separator of POSIX systems).
\<close>

definition append_text :: "string \<Rightarrow> text_file option \<Rightarrow> text_file option" where
  "append_text s f =
     (case f of
        None \<Rightarrow> Some (Text s)
      | Some (Text content) \<Rightarrow> Some (Text (content @ s))
      | Some Undecodable \<Rightarrow> Some Undecodable)"

text \<open>
  The sidebar handler, lines 129 to 139: \<open>new\<close> is the text of the input field and
  \<open>clicked\<close> the state of the button.
\<close>

datatype notice = Link_added | Already_exists | No_notice

definition add_link :: "string \<Rightarrow> bool \<Rightarrow> world \<Rightarrow> error + (world \<times> notice)" where
  "add_link new clicked w =
     (case load_links w of
        Inl e \<Rightarrow> Inl e
      | Inr links \<Rightarrow>
          if new \<noteq> [] \<and> clicked then
            if new \<notin> set links
            then Inr (w\<lparr>links_file := append_text (strip new @ [NL]) (links_file w)\<rparr>, Link_added)
            else Inr (w, Already_exists)
          else Inr (w, No_notice))"

section \<open>Event store\<close>

definition log_columns :: "string list" where
  "log_columns = [''datetime'', ''Available_For_Call'', ''On_Call'']"

text \<open>
  \<^verbatim>\<open>pd.concat([df, new], ignore_index=True)\<close>: the rows of \<open>df\<close> followed by those of
  \<open>new\<close>, under the columns of \<open>df\<close> followed by the columns only \<open>new\<close> has.
\<close>

definition concat_frames :: "dataframe \<Rightarrow> dataframe \<Rightarrow> dataframe" where
  "concat_frames df new =
     \<lparr>columns = columns df @ [c \<leftarrow> columns new. c \<notin> set (columns df)],
      rows = rows df @ rows new\<rparr>"

text \<open>
  The length of a file name in bytes: the file system holds it in UTF-8, where a character
  from code point 128 on takes two bytes. A name is at most \<open>NAME_MAX\<close> bytes long.
\<close>

definition utf8_length :: "string \<Rightarrow> nat" where
  "utf8_length s = sum_list (map (\<lambda>c. if digit7 c then 2 else 1) s)"

definition NAME_MAX :: nat where
  "NAME_MAX = 255"

text \<open>
  \<^verbatim>\<open>append_log(url, call_vis, joinq_vis)\<close>, lines 54 to 68, called with two booleans.
  \<^verbatim>\<open>int(True)\<close> is 1 and \<^verbatim>\<open>int(False)\<close> is 0; \<open>local_clock\<close> gives \<^verbatim>\<open>datetime.now()\<close> at an
  instant. For a file name with a null character or longer than the limit,
  \<^verbatim>\<open>os.path.exists\<close> answers no and \<^verbatim>\<open>to_csv\<close> raises. On a file that exists,
  \<^verbatim>\<open>pd.read_csv(path, parse_dates=["datetime"])\<close> raises when the content is no table or
  the table has no column \<open>datetime\<close>.
\<close>

definition append_log ::
  "(nat \<Rightarrow> datetime) \<Rightarrow> string \<Rightarrow> bool \<Rightarrow> bool \<Rightarrow> world \<Rightarrow> error + world" where
  "append_log local_clock url call_vis joinq_vis w =
     (let name = safe url @ ''.csv'';
          path = path_join DATA_DIR name;
          new = \<lparr>columns = log_columns,
                 rows = [\<lparr>datetime = local_clock (now w),
                          Available_For_Call = of_bool call_vis,
                          On_Call = of_bool joinq_vis\<rparr>]\<rparr>
      in if CHR 0x00 \<in> set name then Inl ValueError
         else if NAME_MAX < utf8_length name then Inl OSError
         else case csv_files w path of
           Some Unparsable \<Rightarrow> Inl ParserError
         | Some (Csv df) \<Rightarrow>
             if ''datetime'' \<in> set (columns df)
             then Inr (w\<lparr>csv_files := (csv_files w)(path \<mapsto> Csv (concat_frames df new))\<rparr>)
             else Inl ValueError
         | None \<Rightarrow>
             Inr (w\<lparr>csv_files := (csv_files w)
                    (path \<mapsto> Csv (concat_frames \<lparr>columns = log_columns, rows = []\<rparr> new))\<rparr>))"

section \<open>Page probe\<close>

text \<open>
  What the browser does during one call of \<^verbatim>\<open>track_once\<close>: the driver does not start
  (lines 75 and 76), \<^verbatim>\<open>driver.get\<close> raises, the wait raises (a timeout after 10 seconds, or
  anything else), \<^verbatim>\<open>find_elements\<close> raises, or it returns elements. An element is the
  text that \<^verbatim>\<open>btn.text\<close> gives, or \<open>None\<close> when reading it raises.
\<close>

datatype session =
    Startup_raises
  | Get_raises
  | Wait_raises
  | Find_raises
  | Elements "string option list"

text \<open>The loop of lines 85 to 90; \<open>None\<close> when \<^verbatim>\<open>btn.text\<close> raises.\<close>

fun scan_buttons :: "string option list \<Rightarrow> bool \<Rightarrow> bool \<Rightarrow> (bool \<times> bool) option" where
  "scan_buttons [] found_call found_joinq = Some (found_call, found_joinq)"
| "scan_buttons (None # buttons) found_call found_joinq = None"
| "scan_buttons (Some text # buttons) found_call found_joinq =
     (let txt = lower (strip text)
      in scan_buttons buttons
           (if contains ''call'' txt then True else found_call)
           (if contains ''join q'' txt \<or> contains ''joinq'' txt then True else found_joinq))"

text \<open>
  \<^verbatim>\<open>track_once(url)\<close>, lines 70 to 96. The driver is built before the \<^verbatim>\<open>try\<close>; every
  exception inside it is caught and gives \<^verbatim>\<open>(None, None)\<close>. The \<^verbatim>\<open>driver.quit()\<close> of the
  \<^verbatim>\<open>finally\<close> clause and the calls of \<^verbatim>\<open>print\<close> are taken to return.
\<close>

definition track_once :: "(string \<Rightarrow> session) \<Rightarrow> string \<Rightarrow> error + (bool option \<times> bool option)" where
  "track_once browser url =
     (case browser url of
        Startup_raises \<Rightarrow> Inl WebDriverException
      | Get_raises \<Rightarrow> Inr (None, None)
      | Wait_raises \<Rightarrow> Inr (None, None)
      | Find_raises \<Rightarrow> Inr (None, None)
      | Elements buttons \<Rightarrow>
          (case scan_buttons buttons False False of
             None \<Rightarrow> Inr (None, None)
           | Some (found_call, found_joinq) \<Rightarrow> Inr (Some found_call, Some found_joinq)))"

section \<open>Scheduler\<close>

text \<open>
  The surroundings of the scheduler: what the browser does for a URL when a probe starts
  at a given instant, how long that probe takes, and what the local clock shows at an
  instant, which is what \<^verbatim>\<open>datetime.now()\<close> returns then. The local clock is any function
  of the instant: it steps back when daylight saving time ends or when it is set.
\<close>

record env =
  web :: "nat \<Rightarrow> string \<Rightarrow> session"
  latency :: "nat \<Rightarrow> string \<Rightarrow> nat"
  clock :: "nat \<Rightarrow> datetime"

text \<open>The body of the loop over the links, lines 103 to 107.\<close>

definition poll_link :: "env \<Rightarrow> string \<Rightarrow> world \<Rightarrow> error + world" where
  "poll_link e url w =
     (case track_once (web e (now w)) url of
        Inl err \<Rightarrow> Inl err
      | Inr (call_vis, joinq_vis) \<Rightarrow>
          (let w1 = w\<lparr>now := now w + latency e (now w) url,
                      effects := effects w @ [Probe url]\<rparr>
           in case call_vis of
                None \<Rightarrow> Inr w1
              | Some c \<Rightarrow>
                  (case joinq_vis of
                     None \<Rightarrow> Inl TypeError
                   | Some j \<Rightarrow> append_log (clock e) url c j w1)))"

text \<open>\<^verbatim>\<open>for url in links\<close>, lines 102 to 107.\<close>

fun poll_links :: "env \<Rightarrow> string list \<Rightarrow> world \<Rightarrow> error + world" where
  "poll_links e [] w = Inr w"
| "poll_links e (url # links) w =
     (case poll_link e url w of
        Inl err \<Rightarrow> Inl err
      | Inr w' \<Rightarrow> poll_links e links w')"

text \<open>\<^verbatim>\<open>time.sleep(seconds)\<close>.\<close>

definition sleep :: "nat \<Rightarrow> world \<Rightarrow> world" where
  "sleep seconds w = w\<lparr>now := now w + seconds, effects := effects w @ [Sleep seconds]\<rparr>"

text \<open>One pass of the \<^verbatim>\<open>while True\<close> loop, lines 101 to 112, on the world and the counter.\<close>

definition cycle :: "env \<Rightarrow> world \<times> int \<Rightarrow> error + world \<times> int" where
  "cycle e st =
     (case st of (w, count) \<Rightarrow>
        (case load_links w of
           Inl err \<Rightarrow> Inl err
         | Inr links \<Rightarrow>
             (case poll_links e links w of
                Inl err \<Rightarrow> Inl err
              | Inr w1 \<Rightarrow>
                  (let count' = count + 1;
                       last_poll = strftime (clock e (now w1));
                       w2 = write_heartbeat count' last_poll w1
                   in Inr (sleep POLL_INTERVAL w2, count')))))"

text \<open>
  The first \<open>n\<close> passes of the loop. The loop itself has no exit: it runs until an
  exception leaves it.
\<close>

fun tracker_loop :: "nat \<Rightarrow> env \<Rightarrow> world \<times> int \<Rightarrow> error + world \<times> int" where
  "tracker_loop 0 e st = Inr st"
| "tracker_loop (Suc n) e st =
     (case cycle e st of
        Inl err \<Rightarrow> Inl err
      | Inr st' \<Rightarrow> tracker_loop n e st')"

text \<open>\<^verbatim>\<open>background_tracker()\<close>, lines 98 to 112, run for \<open>n\<close> passes: \<^verbatim>\<open>count = 0\<close>, then the loop.\<close>

definition background_tracker :: "nat \<Rightarrow> env \<Rightarrow> world \<Rightarrow> error + world \<times> int" where
  "background_tracker n e w = tracker_loop n e (w, 0)"

section \<open>Notions used to state the properties\<close>

text \<open>
  A probe that fails inside the guarded part of \<^verbatim>\<open>track_once\<close>: navigation, the wait,
  the search for the elements, or reading the text of one of them raises.
\<close>

fun probe_fails :: "session \<Rightarrow> bool" where
  "probe_fails Startup_raises = False"
| "probe_fails Get_raises = True"
| "probe_fails Wait_raises = True"
| "probe_fails Find_raises = True"
| "probe_fails (Elements buttons) = (None \<in> set buttons)"

text \<open>The heartbeats written and the links probed, read off the effects.\<close>

fun heartbeat_writes :: "effect list \<Rightarrow> (int \<times> string) list" where
  "heartbeat_writes [] = []"
| "heartbeat_writes (WriteHeartbeat count last_poll # es) = (count, last_poll) # heartbeat_writes es"
| "heartbeat_writes (_ # es) = heartbeat_writes es"

fun probes :: "effect list \<Rightarrow> string list" where
  "probes [] = []"
| "probes (Probe url # es) = url # probes es"
| "probes (_ # es) = probes es"

text \<open>The rows stored for a link; none when its event file does not exist or cannot be parsed.\<close>

definition stored_rows :: "world \<Rightarrow> string \<Rightarrow> row list" where
  "stored_rows w url =
     (case csv_files w (csv_path url) of
        Some (Csv df) \<Rightarrow> rows df
      | _ \<Rightarrow> [])"

text \<open>
  A link whose event file can be written: the file name has no null character and fits
  the limit of the file system.
\<close>

definition storable :: "string \<Rightarrow> bool" where
  "storable url =
     (CHR 0x00 \<notin> set (safe url @ ''.csv'') \<and> utf8_length (safe url @ ''.csv'') \<le> NAME_MAX)"

text \<open>
  An event file that \<^verbatim>\<open>append_log\<close> can read back: it does not exist yet, or it holds a
  table with a column \<open>datetime\<close>.
\<close>

definition readable :: "csv_file option \<Rightarrow> bool" where
  "readable f =
     (case f of
        None \<Rightarrow> True
      | Some (Csv df) \<Rightarrow> ''datetime'' \<in> set (columns df)
      | Some Unparsable \<Rightarrow> False)"

text \<open>
  A reading that \<^verbatim>\<open>datetime.now()\<close> can return, in a year of four digits, and the fields
  that the heartbeat keeps of it, by which two readings are compared.
\<close>

definition valid_datetime :: "datetime \<Rightarrow> bool" where
  "valid_datetime d =
     (1000 \<le> year d \<and> year d \<le> 9999 \<and> 1 \<le> month d \<and> month d \<le> 12
      \<and> 1 \<le> day d \<and> day d \<le> 31 \<and> hour d < 24 \<and> minute d < 60 \<and> second d < 60
      \<and> microsecond d < 1000000)"

definition to_the_second :: "datetime \<Rightarrow> nat list" where
  "to_the_second d = [year d, month d, day d, hour d, minute d, second d]"

text \<open>The header that \<^verbatim>\<open>append_log\<close> writes over a file found in state \<open>f\<close>.\<close>

definition appended_header :: "csv_file option \<Rightarrow> string list" where
  "appended_header f =
     (case f of
        Some (Csv old) \<Rightarrow> columns old @ [c \<leftarrow> log_columns. c \<notin> set (columns old)]
      | _ \<Rightarrow> log_columns)"

text \<open>The header row of the event file of a link, when that file holds a table.\<close>

definition stored_header :: "world \<Rightarrow> string \<Rightarrow> string list option" where
  "stored_header w url =
     (case csv_files w (csv_path url) of
        Some (Csv df) \<Rightarrow> Some (columns df)
      | _ \<Rightarrow> None)"

text \<open>The number of lines of a text file; none when it does not exist.\<close>

definition line_count :: "text_file option \<Rightarrow> nat" where
  "line_count f = (case f of Some (Text content) \<Rightarrow> length (readlines content) | _ \<Rightarrow> 0)"

text \<open>
  A registry file as the program leaves it: absent, or text in which every line ends in a
  line feed.
\<close>

definition newline_terminated :: "text_file option \<Rightarrow> bool" where
  "newline_terminated f =
     (case f of
        None \<Rightarrow> True
      | Some (Text content) \<Rightarrow> content = [] \<or> last content = NL
      | Some Undecodable \<Rightarrow> False)"

section \<open>A scenario\<close>

text \<open>
  The registry holds the links \<open>A\<close> and \<open>B\<close>. The page of \<open>A\<close> shows one button labelled
  "Call Now", the wait on the page of \<open>B\<close> times out, and for every other URL the driver
  does not start. A probe takes three ticks of one second. The local clock shows 10:00:00
  on 3 November 2026 at tick 0 and runs with the ticks. An earlier run left a heartbeat
  with count 5.
\<close>

definition scenario_clock :: "nat \<Rightarrow> datetime" where
  "scenario_clock t =
     \<lparr>year = 2026, month = 11, day = 3, hour = 10, minute = t div 60, second = t mod 60,
      microsecond = 0\<rparr>"

definition scenario_env :: env where
  "scenario_env =
     \<lparr>web = (\<lambda>t url. if url = ''A'' then Elements [Some ''Call Now'']
                      else if url = ''B'' then Wait_raises
                      else Startup_raises),
      latency = (\<lambda>t url. 3),
      clock = scenario_clock\<rparr>"

text \<open>
  The same with a local clock that is set back by one hour at tick 150, as at the end of
  daylight saving time: 02:57:30 on 25 October 2026 at tick 0, 02:59:59 at tick 149, and
  02:00:00 at tick 150.
\<close>

definition autumn_clock :: "nat \<Rightarrow> datetime" where
  "autumn_clock t =
     (let s = 177 * 60 + 30 + t - (if t < 150 then 0 else 3600)
      in \<lparr>year = 2026, month = 10, day = 25, hour = s div 3600, minute = s div 60 mod 60,
          second = s mod 60, microsecond = 0\<rparr>)"

definition autumn_env :: env where
  "autumn_env = scenario_env\<lparr>clock := autumn_clock\<rparr>"

definition scenario_world :: world where
  "scenario_world =
     \<lparr>now = 100,
      heartbeat_file = Some (Text (''5'' @ [NL] @ ''then'' @ [NL])),
      links_file = Some (Text (''A'' @ [NL] @ ''B'' @ [NL])),
      csv_files = Map.empty,
      effects = []\<rparr>"

text \<open>A world in which nothing has been stored yet.\<close>

definition empty_world :: world where
  "empty_world =
     \<lparr>now = 0, heartbeat_file = None, links_file = None, csv_files = Map.empty, effects = []\<rparr>"

section \<open>Strings: basic facts\<close>

lemma replace_from_Nil [simp]: "replace_from old new [] = []"
  by (simp add: replace_from.simps)

lemma replace_from_char: "replace_from [c] [d] s = map (\<lambda>x. if x = c then d else x) s"
proof (induction s)
  case Nil
  show ?case by simp
next
  case (Cons x xs)
  then show ?case
    by (subst replace_from.simps) (simp add: startswith_def)
qed


lemma replace_from_absent: "\<not> contains old s \<Longrightarrow> replace_from old new s = s"
proof (induction s)
  case Nil
  show ?case by simp
next
  case (Cons x xs)
  then show ?case
    by (subst replace_from.simps) auto
qed

lemma replace_from_scheme:
  assumes "CHR ''/'' \<notin> set s"
  shows "replace_from ''://'' ''_'' (s @ ''://'' @ r) = s @ ''_'' @ replace_from ''://'' ''_'' r"
  using assms
proof (induction s)
  case Nil
  show ?case by (subst replace_from.simps) (simp add: startswith_def)
next
  case (Cons x xs)
  have "\<not> startswith ((x # xs) @ ''://'' @ r) ''://''"
    using Cons.prems by (cases xs) (auto simp: startswith_def)
  then show ?case using Cons
    by (subst replace_from.simps) simp
qed

section \<open>The storage key of a link\<close>

text \<open>
  The file name of a URL \<open>scheme://rest\<close> whose scheme has no slash and whose rest has no
  further \<open>://\<close>: the scheme, an underscore, and the rest with every slash turned
  into an underscore.
\<close>

lemma safe_scheme_url:
  assumes "CHR ''/'' \<notin> set s" and "\<not> contains ''://'' r"
  shows "safe (s @ ''://'' @ r) = s @ ''_'' @ map (\<lambda>x. if x = CHR ''/'' then CHR ''_'' else x) r"
proof -
  have a: "replace (s @ ''://'' @ r) ''://'' ''_'' = s @ ''_'' @ r"
    using replace_from_scheme [OF assms(1), of r] replace_from_absent [OF assms(2), of "''_''"]
    by (simp add: replace_def)
  have b: "map (\<lambda>x. if x = CHR ''/'' then CHR ''_'' else x) s = s"
    using assms(1) by (induction s) auto
  have "safe (s @ ''://'' @ r) = replace (s @ ''_'' @ r) ''/'' ''_''"
    unfolding safe_def a ..
  then show ?thesis
    using b by (simp add: replace_def replace_from_char)
qed

lemma split_at_first:
  assumes "xs @ x # ys = xs' @ x # ys'" and "x \<notin> set xs" and "x \<notin> set xs'"
  shows "xs = xs' \<and> ys = ys'"
  using assms
proof (induction xs arbitrary: xs')
  case Nil
  then show ?case by (cases xs') auto
next
  case (Cons a as)
  then show ?case by (cases xs') auto
qed

lemma slash_map_inj:
  assumes "CHR ''_'' \<notin> set r" and "CHR ''_'' \<notin> set r'"
    and "map (\<lambda>x. if x = CHR ''/'' then CHR ''_'' else x) r
       = map (\<lambda>x. if x = CHR ''/'' then CHR ''_'' else x) r'"
  shows "r = r'"
  using assms
proof (induction r arbitrary: r')
  case Nil
  then show ?case by simp
next
  case (Cons x xs)
  then obtain y ys where r': "r' = y # ys" by (cases r') auto
  with Cons.prems have "x = y" by (auto split: if_splits)
  moreover have "xs = ys" using Cons r' by auto
  ultimately show ?case using r' by simp
qed

text \<open>
  C9 (as amended). Two distinct URLs of the form \<open>scheme://rest\<close>, where the scheme has
  neither a slash nor an underscore and the rest has neither an underscore nor a further
  \<open>://\<close>, are stored under distinct file names. (Without these conditions the encoding
  is not injective: see the counterexample below.)
\<close>

theorem csv_path_distinct_on_scheme_urls:
  assumes "CHR ''/'' \<notin> set s" and "CHR ''_'' \<notin> set s"
    and "CHR ''_'' \<notin> set r" and "\<not> contains ''://'' r"
    and "CHR ''/'' \<notin> set s'" and "CHR ''_'' \<notin> set s'"
    and "CHR ''_'' \<notin> set r'" and "\<not> contains ''://'' r'"
    and "s @ ''://'' @ r \<noteq> s' @ ''://'' @ r'"
  shows "csv_path (s @ ''://'' @ r) \<noteq> csv_path (s' @ ''://'' @ r')"
proof
  let ?f = "\<lambda>x. if x = CHR ''/'' then CHR ''_'' else x"
  assume "csv_path (s @ ''://'' @ r) = csv_path (s' @ ''://'' @ r')"
  then have "safe (s @ ''://'' @ r) = safe (s' @ ''://'' @ r')"
    by (simp add: csv_path_def path_join_def)
  then have eq: "s @ CHR ''_'' # map ?f r = s' @ CHR ''_'' # map ?f r'"
    using safe_scheme_url [OF assms(1,4)] safe_scheme_url [OF assms(5,8)] by simp
  have "s = s' \<and> map ?f r = map ?f r'"
    using eq assms(2,6) by (rule split_at_first)
  then have "s = s'" and "r = r'"
    using assms(3,7) by (auto intro: slash_map_inj)
  with assms(9) show False by simp
qed

theorem csv_path_distinct_on_scheme_urls_witness:
  "csv_path ''https://a.com/x'' \<noteq> csv_path ''https://a.com/y''"
  using csv_path_distinct_on_scheme_urls [of "''https''" "''a.com/x''" "''https''" "''a.com/y''"]
  by (simp add: startswith_def)

text \<open>
  C9 as stated fails: a slash and an underscore in a URL are both written as an underscore,
  so these two distinct URLs share one event file.
\<close>

theorem csv_path_collision:
  "''https://a.com/x/y'' \<noteq> ''https://a.com/x_y''
   \<and> csv_path ''https://a.com/x/y'' = csv_path ''https://a.com/x_y''"
  by (simp add: csv_path_def safe_def replace_def replace_from.simps startswith_def)

section \<open>The probe\<close>


lemma scan_buttons_raises: "None \<in> set buttons \<Longrightarrow> scan_buttons buttons fc fj = None"
proof (induction buttons arbitrary: fc fj)
  case Nil
  then show ?case by simp
next
  case (Cons b bs)
  then show ?case by (cases b) (auto simp: Let_def)
qed

lemma track_once_fails: "probe_fails (browser url) \<Longrightarrow> track_once browser url = Inr (None, None)"
  by (cases "browser url") (auto simp: track_once_def scan_buttons_raises)

text \<open>The results of \<open>track_once\<close>: an exception, two \<open>None\<close>, or two booleans.\<close>

lemma track_once_cases:
  "track_once browser url = Inl WebDriverException \<and> browser url = Startup_raises
   \<or> track_once browser url = Inr (None, None) \<and> browser url \<noteq> Startup_raises
   \<or> (\<exists>c j. track_once browser url = Inr (Some c, Some j)) \<and> browser url \<noteq> Startup_raises"
  by (cases "browser url") (auto simp: track_once_def split: option.splits)





section \<open>One link\<close>

lemmas eval_defs =
  NL_def CR_def strip_def is_space_def lower_def lower_char_def upper_letters_def
  lower_letters_def startswith_def universal_newlines_def readlines_def
  replace_def replace_from.simps safe_def csv_path_def path_join_def DATA_DIR_def
  is_digit_def digit_value_def parse_unsigned_def py_int_def int_strip_def int_space_def
  int_max_str_digits_def digit_char_def str_nat.simps str_int_def zfill_def strftime_def
  read_heartbeat_def write_heartbeat_def load_links_def default_links_def
  append_text_def add_link_def log_columns_def concat_frames_def utf8_length_def NAME_MAX_def
  append_log_def track_once_def poll_link_def sleep_def POLL_INTERVAL_def cycle_def
  background_tracker_def stored_rows_def scenario_clock_def scenario_env_def
  scenario_world_def empty_world_def Let_def

lemma readable_appended_header:
  assumes "readable f"
  shows "''datetime'' \<in> set (appended_header f)"
proof (cases f)
  case None
  then show ?thesis by (simp add: appended_header_def log_columns_def)
next
  case (Some g)
  with assms show ?thesis
    by (cases g) (simp_all add: appended_header_def readable_def)
qed

lemma append_log_ok:
  assumes "storable url" and "readable (csv_files w (csv_path url))"
  shows "append_log clk url c j w =
           Inr (w\<lparr>csv_files := (csv_files w)(csv_path url \<mapsto>
                  Csv \<lparr>columns = appended_header (csv_files w (csv_path url)),
                       rows = stored_rows w url
                         @ [\<lparr>datetime = clk (now w), Available_For_Call = of_bool c,
                              On_Call = of_bool j\<rparr>]\<rparr>)\<rparr>)"
proof -
  have n: "CHR 0x00 \<notin> set (safe url @ ''.csv'')" "\<not> NAME_MAX < utf8_length (safe url @ ''.csv'')"
    using assms(1) by (simp_all add: storable_def)
  show ?thesis
  proof (cases "csv_files w (csv_path url)")
    case None
    then have "csv_files w (path_join DATA_DIR (safe url @ ''.csv'')) = None"
      by (simp add: csv_path_def)
    with None n show ?thesis
      by (simp add: append_log_def concat_frames_def stored_rows_def appended_header_def
          filter_empty_conv csv_path_def)
  next
    case (Some f)
    with assms(2) obtain old where f: "f = Csv old" "''datetime'' \<in> set (columns old)"
      by (cases f) (auto simp: readable_def)
    with Some have "csv_files w (path_join DATA_DIR (safe url @ ''.csv'')) = Some (Csv old)"
      by (simp add: csv_path_def)
    with Some f n show ?thesis
      by (simp add: append_log_def concat_frames_def stored_rows_def appended_header_def
          csv_path_def)
  qed
qed

lemma poll_link_skip:
  assumes "probe_fails (web e (now w) url)"
  shows "poll_link e url w =
           Inr (w\<lparr>now := now w + latency e (now w) url, effects := effects w @ [Probe url]\<rparr>)"
  using track_once_fails [of "web e (now w)" url] assms by (simp add: poll_link_def)

lemma poll_link_ok:
  assumes "web e (now w) url \<noteq> Startup_raises"
    and "storable url" and "readable (csv_files w (csv_path url))"
  shows "\<exists>w'. poll_link e url w = Inr w'
           \<and> effects w' = effects w @ [Probe url]
           \<and> (\<forall>p. readable (csv_files w p) \<longrightarrow> readable (csv_files w' p))"
proof -
  let ?w1 = "w\<lparr>now := now w + latency e (now w) url, effects := effects w @ [Probe url]\<rparr>"
  consider "track_once (web e (now w)) url = Inr (None, None)"
    | c j where "track_once (web e (now w)) url = Inr (Some c, Some j)"
    using track_once_cases [of "web e (now w)" url] assms(1) by auto
  then show ?thesis
  proof cases
    case 1
    then show ?thesis by (simp add: poll_link_def)
  next
    case 2
    have r: "readable (csv_files ?w1 (csv_path url))" using assms(3) by simp
    have "''datetime'' \<in> set (appended_header (csv_files ?w1 (csv_path url)))"
      using readable_appended_header [OF r] .
    with append_log_ok [OF assms(2) r, of "clock e" c j] 2 show ?thesis
      by (simp add: poll_link_def readable_def)
  qed
qed

text \<open>
  C2. A probe that fails in navigation, in the wait or in the extraction returns
  \<open>(None, None)\<close> and raises nothing; the pass of the loop for that link then returns
  normally and leaves every event file as it was, so that no row, not even an empty one,
  is added.
\<close>

theorem failed_probe_adds_no_row:
  assumes "probe_fails (web e (now w) url)"
  shows "track_once (web e (now w)) url = Inr (None, None)
         \<and> (\<exists>w'. poll_link e url w = Inr w' \<and> csv_files w' = csv_files w)"
  using track_once_fails [of "web e (now w)" url] assms poll_link_skip [OF assms] by simp

theorem failed_probe_adds_no_row_witness:
  "probe_fails (web scenario_env (now scenario_world) ''B'')
   \<and> track_once (web scenario_env (now scenario_world)) ''B'' = Inr (None, None)
   \<and> (\<exists>w'. poll_link scenario_env ''B'' scenario_world = Inr w'
             \<and> csv_files w' = csv_files scenario_world)"
proof -
  have h: "probe_fails (web scenario_env (now scenario_world) ''B'')"
    by (simp add: scenario_env_def)
  show ?thesis using h failed_probe_adds_no_row [OF h] by simp
qed


section \<open>Appending to the event store\<close>

text \<open>
  C4 (as amended). When the file name of the link can be stored and the event file of the
  link is absent or holds a table with a column \<open>datetime\<close>, \<open>append_log\<close> returns normally,
  the rows stored for the link are the rows stored before, in their order, followed by the
  one new row, and a file that did not exist is created with the header
  \<open>datetime, Available_For_Call, On_Call\<close>.
\<close>

theorem append_log_appends_one_row:
  assumes "storable url" and "readable (csv_files w (csv_path url))"
  shows "\<exists>w'. append_log clk url c j w = Inr w'
           \<and> stored_rows w' url = stored_rows w url
                @ [\<lparr>datetime = clk (now w), Available_For_Call = of_bool c,
                     On_Call = of_bool j\<rparr>]
           \<and> (csv_files w (csv_path url) = None \<longrightarrow>
                stored_header w' url = Some [''datetime'', ''Available_For_Call'', ''On_Call''])"
  using append_log_ok [OF assms, of clk c j]
  by (simp add: stored_rows_def stored_header_def appended_header_def log_columns_def)

theorem append_log_appends_one_row_witness:
  "storable ''A''
   \<and> (\<exists>w'. append_log scenario_clock ''A'' True False empty_world = Inr w'
         \<and> stored_rows w' ''A''
             = [\<lparr>datetime = scenario_clock 0, Available_For_Call = 1, On_Call = 0\<rparr>]
         \<and> stored_header w' ''A'' = Some [''datetime'', ''Available_For_Call'', ''On_Call''])
   \<and> (\<exists>w'. append_log scenario_clock ''A'' False True
               (projr (append_log scenario_clock ''A'' True False (empty_world\<lparr>now := 7\<rparr>))
                  \<lparr>now := 9\<rparr>) = Inr w'
         \<and> stored_rows w' ''A''
             = [\<lparr>datetime = scenario_clock 7, Available_For_Call = 1, On_Call = 0\<rparr>,
                \<lparr>datetime = scenario_clock 9, Available_For_Call = 0, On_Call = 1\<rparr>])"
proof -
  let ?w0 = "projr (append_log scenario_clock ''A'' True False (empty_world\<lparr>now := 7\<rparr>))"
  let ?w1 = "?w0\<lparr>now := 9\<rparr>"
  have s: "storable ''A''"
    by (simp add: storable_def safe_def replace_def replace_from.simps startswith_def
        utf8_length_def NAME_MAX_def)
  have h: "readable (csv_files empty_world (csv_path ''A''))"
    by (simp add: empty_world_def readable_def)
  have h7: "readable (csv_files (empty_world\<lparr>now := 7\<rparr>) (csv_path ''A''))"
    by (simp add: empty_world_def readable_def)
  have w0: "append_log scenario_clock ''A'' True False (empty_world\<lparr>now := 7\<rparr>) = Inr ?w0"
    using append_log_ok [OF s h7, of scenario_clock True False] by simp
  have r1: "stored_rows ?w1 ''A''
      = [\<lparr>datetime = scenario_clock 7, Available_For_Call = 1, On_Call = 0\<rparr>]"
    using append_log_ok [OF s h7, of scenario_clock True False]
    by (simp add: stored_rows_def empty_world_def)
  have h1: "readable (csv_files ?w1 (csv_path ''A''))"
    using append_log_ok [OF s h7, of scenario_clock True False]
    by (simp add: readable_def appended_header_def log_columns_def empty_world_def)
  have 1: "\<exists>w'. append_log scenario_clock ''A'' True False empty_world = Inr w'
         \<and> stored_rows w' ''A''
             = [\<lparr>datetime = scenario_clock 0, Available_For_Call = 1, On_Call = 0\<rparr>]
         \<and> stored_header w' ''A'' = Some [''datetime'', ''Available_For_Call'', ''On_Call'']"
    using append_log_appends_one_row [OF s h, of scenario_clock True False]
    by (auto simp: empty_world_def stored_rows_def)
  have 2: "\<exists>w'. append_log scenario_clock ''A'' False True ?w1 = Inr w'
         \<and> stored_rows w' ''A''
             = [\<lparr>datetime = scenario_clock 7, Available_For_Call = 1, On_Call = 0\<rparr>,
                \<lparr>datetime = scenario_clock 9, Available_For_Call = 0, On_Call = 1\<rparr>]"
    using append_log_appends_one_row [OF s h1, of scenario_clock False True] r1
    by auto
  from s 1 2 show ?thesis by simp
qed

text \<open>
  C4 as stated fails in its last part: the header that the code writes has the column
  names \<open>Available_For_Call\<close> and \<open>On_Call\<close>, in this spelling. It also fails for an event
  file that pandas cannot parse and for a link whose file name is longer than the file
  system allows, here a URL of 300 letters: \<open>append_log\<close> raises and adds no record.
\<close>

theorem append_log_header_counterexample:
  "stored_header (projr (append_log scenario_clock ''A'' True False empty_world)) ''A''
     \<noteq> Some [''datetime'', ''available_for_call'', ''on_call'']
   \<and> append_log scenario_clock ''A'' True False
        (empty_world\<lparr>csv_files := [csv_path ''A'' \<mapsto> Unparsable]\<rparr>)
     = Inl ParserError
   \<and> append_log scenario_clock (replicate 300 (CHR ''a'')) True False empty_world = Inl OSError"
proof -
  have s: "safe (replicate 300 (CHR ''a'')) = replicate 300 (CHR ''a'')"
    by code_simp
  have l: "NAME_MAX < utf8_length (safe (replicate 300 (CHR ''a'')) @ ''.csv'')"
    unfolding s by (simp add: utf8_length_def NAME_MAX_def sum_list_replicate)
  have n: "CHR 0x00 \<notin> set (safe (replicate 300 (CHR ''a'')) @ ''.csv'')"
    unfolding s by simp
  have 3: "append_log scenario_clock (replicate 300 (CHR ''a'')) True False empty_world
      = Inl OSError"
    using l n by (simp add: append_log_def Let_def)
  have 12: "stored_header (projr (append_log scenario_clock ''A'' True False empty_world)) ''A''
     \<noteq> Some [''datetime'', ''available_for_call'', ''on_call'']
   \<and> append_log scenario_clock ''A'' True False
        (empty_world\<lparr>csv_files := [csv_path ''A'' \<mapsto> Unparsable]\<rparr>)
     = Inl ParserError"
    by (simp add: append_log_def stored_header_def empty_world_def concat_frames_def
        log_columns_def csv_path_def safe_def replace_def replace_from.simps startswith_def
        utf8_length_def NAME_MAX_def path_join_def DATA_DIR_def)
  from 12 3 show ?thesis by simp
qed


end
